theory Spec2Isabelle
  imports Main
begin

section \<open>Values, objects and the heap\<close>

text \<open>
  The library is three wrappers (\<open>to\<close>, \<open>toSync\<close>, \<open>toPromise\<close>) that catch whatever
  the wrapped operation throws and return the pair \<open>[error, data]\<close>. What they do
  depends on three primitives of the language: \<open>instanceof Error\<close>, \<open>String(...)\<close>
  and \<open>new Error(...)\<close>, so the embedding starts with the values those primitives
  inspect. The globals \<open>Error\<close> and \<open>String\<close> are the language's own.

  A value is a primitive or a reference to an object of the heap. Two references are
  the same object exactly when their addresses are equal, so "the very same object"
  is equality of values together with an unchanged heap cell.
\<close>

type_synonym addr = nat

text \<open>
  A Number is \<open>NaN\<close>, an infinity (\<open>Infinity True\<close> is the negative one), or a finite
  number. A finite number is kept as the language prints it: \<open>Finite neg s n\<close> is
  the number of sign \<open>neg\<close> whose shortest decimal form that still identifies it has
  the digits of \<open>s\<close> (\<open>k\<close> of them) and the magnitude \<open>s \<times> 10\<^bsup>n - k\<^esup>\<close>; these are the
  \<open>s\<close>, \<open>k\<close> and \<open>n\<close> that \<open>Number::toString\<close> chooses. Zero is \<open>s = 0\<close>. So
  \<open>2\<^sup>6\<^sup>9\<close> is \<open>Finite False 5902958103587057 21\<close> and \<open>0.5\<close> is
  \<open>Finite False 5 0\<close>.
\<close>

datatype number = NaN | Infinity bool | Finite bool nat int

datatype jsval =
    VUndefined
  | VNull
  | VBool bool
  | VNum number
  | VBigInt int
  | VStr string
  | VSym "string option"
  | VObj addr

text \<open>The completion of an evaluation: a value, or a thrown value.\<close>

datatype 'a completion = Normal 'a | Throw jsval

text \<open>
  Code that is not the library's (the wrapped operation, a method of a thrown
  object) is named by a number; what it does is given by the program, a parameter
  of type \<open>code\<close> below.

  What looking up a method of an object finds: nothing (\<open>undefined\<close> or \<open>null\<close>), a
  value that cannot be called, a method of the language itself that returns the
  given value and has no effect, or user code.
\<close>

type_synonym fid = nat

datatype slot = Absent | NotCallable | Builtin jsval | UserCode fid

text \<open>
  An object records what the three primitives can observe of it:
  \<^item> \<open>protoWalk\<close>: what the walk along the prototype chain made by
    \<open>instanceof Error\<close> gives: \<open>Normal True\<close> when it meets \<open>Error.prototype\<close>,
    \<open>Normal False\<close> when the chain ends without it, \<open>Throw t\<close> when the object is a
    \<open>Proxy\<close> whose \<open>getPrototypeOf\<close> trap throws \<open>t\<close>; the walk reads the object
    and leaves the heap as it is;
  \<^item> \<open>props\<close>: its data properties (\<open>message\<close> and whatever else is attached);
  \<^item> \<open>toPrimitiveM\<close>, \<open>toStringM\<close>, \<open>valueOfM\<close>: what the lookup of
    \<open>[Symbol.toPrimitive]\<close>, \<open>toString\<close> and \<open>valueOf\<close> through the prototype
    chain finds.
\<close>

record obj =
  protoWalk :: "bool completion"
  props :: "(string \<times> jsval) list"
  toPrimitiveM :: slot
  toStringM :: slot
  valueOfM :: slot

type_synonym heap = "obj list"

text \<open>
  The program: what a call of user code does in a heap. It returns or throws and
  leaves a heap, which may differ in any way from the one it started in; \<open>None\<close>
  when the call never returns.
\<close>

type_synonym code = "fid \<Rightarrow> heap \<Rightarrow> (jsval completion \<times> heap) option"

definition lookup :: "heap \<Rightarrow> addr \<Rightarrow> obj option" where
  "lookup h a = (if a < length h then Some (h ! a) else None)"


section \<open>The primitives of the language\<close>

subsection \<open>\<open>new Error(message)\<close> and the errors the language itself throws\<close>

text \<open>
  An error object made by a constructor \<open>name\<close> of the \<open>Error\<close> family with a string
  message, living at address \<open>a\<close>: its own property is \<open>message\<close>; it inherits
  \<open>Error.prototype.toString\<close> (the name, or \<open>name: message\<close>) and
  \<open>Object.prototype.valueOf\<close> (the object itself). The text of the message of an
  error thrown by the language is the engine's.
\<close>

definition errorObject :: "string \<Rightarrow> string \<Rightarrow> addr \<Rightarrow> obj" where
  "errorObject name msg a =
     \<lparr> protoWalk = Normal True,
       props = [(''message'', VStr msg)],
       toPrimitiveM = Absent,
       toStringM = Builtin (VStr (if msg = [] then name else name @ '': '' @ msg)),
       valueOfM = Builtin (VObj a) \<rparr>"

definition newError :: "string \<Rightarrow> heap \<Rightarrow> jsval \<times> heap" where
  "newError msg h = (VObj (length h), h @ [errorObject ''Error'' msg (length h)])"

definition throwTypeError :: "string \<Rightarrow> heap \<Rightarrow> 'a completion \<times> heap" where
  "throwTypeError msg h = (Throw (VObj (length h)), h @ [errorObject ''TypeError'' msg (length h)])"

subsection \<open>\<open>error instanceof Error\<close>\<close>

text \<open>
  A primitive is no instance; for an object the prototype chain is walked, which
  can throw. A reference to no object of the heap does not occur in a run; it is
  treated as an object without prototype and without methods.
\<close>

definition instanceofError :: "jsval \<Rightarrow> heap \<Rightarrow> bool completion" where
  "instanceofError v h =
     (case v of
        VObj a \<Rightarrow> (case lookup h a of None \<Rightarrow> Normal False | Some ob \<Rightarrow> protoWalk ob)
      | _ \<Rightarrow> Normal False)"

subsection \<open>\<open>String(value)\<close>\<close>

definition digitChar :: "nat \<Rightarrow> char" where
  "digitChar d = ''0123456789'' ! (d mod 10)"

fun natToDecimal :: "nat \<Rightarrow> string" where
  "natToDecimal n = (if n < 10 then [digitChar n] else natToDecimal (n div 10) @ [digitChar (n mod 10)])"

declare natToDecimal.simps [simp del]

text \<open>\<open>BigInt::toString\<close> in radix 10: the digits, with a minus sign below zero.\<close>

definition intToDecimal :: "int \<Rightarrow> string" where
  "intToDecimal i = (if i < 0 then ''-'' @ natToDecimal (nat (- i)) else natToDecimal (nat i))"

text \<open>
  \<open>Number::toString\<close> in radix 10 on a positive finite number with digits \<open>s\<close> and
  exponent \<open>n\<close>, \<open>k\<close> being the number of digits:
  \<^item> \<open>k \<le> n \<le> 21\<close>: the digits, then \<open>n - k\<close> zeros;
  \<^item> \<open>0 < n \<le> 21\<close>: the first \<open>n\<close> digits, a point, the other digits;
  \<^item> \<open>-6 < n \<le> 0\<close>: \<open>0.\<close>, then \<open>-n\<close> zeros, then the digits;
  \<^item> otherwise exponent notation: the first digit, the other digits after a
    point if there are any, \<open>e\<close>, the sign of \<open>n - 1\<close> and its digits.
\<close>

definition positiveToString :: "nat \<Rightarrow> int \<Rightarrow> string" where
  "positiveToString s n =
     (let ds = natToDecimal s; k = int (length ds)
      in if k \<le> n \<and> n \<le> 21 then ds @ replicate (nat (n - k)) (CHR ''0'')
         else if 0 < n \<and> n \<le> 21 then take (nat n) ds @ ''.'' @ drop (nat n) ds
         else if - 6 < n \<and> n \<le> 0 then ''0.'' @ replicate (nat (- n)) (CHR ''0'') @ ds
         else (let es = (if n - 1 < 0 then ''-'' else ''+'') @ natToDecimal (nat \<bar>n - 1\<bar>)
               in if k = 1 then ds @ ''e'' @ es
                  else take 1 ds @ ''.'' @ drop 1 ds @ ''e'' @ es))"

definition numberToString :: "number \<Rightarrow> string" where
  "numberToString x =
     (case x of
        NaN \<Rightarrow> ''NaN''
      | Infinity neg \<Rightarrow> (if neg then ''-Infinity'' else ''Infinity'')
      | Finite neg s n \<Rightarrow>
          if s = 0 then ''0'' else (if neg then ''-'' else []) @ positiveToString s n)"

fun isObject :: "jsval \<Rightarrow> bool" where
  "isObject (VObj a) = True"
| "isObject v = False"

text \<open>
  The method an object has in a given heap; it is read again before each call,
  since a call of user code may have changed the object.
\<close>

definition slotOf :: "(obj \<Rightarrow> slot) \<Rightarrow> heap \<Rightarrow> addr \<Rightarrow> slot" where
  "slotOf sel h a = (case lookup h a of None \<Rightarrow> Absent | Some ob \<Rightarrow> sel ob)"

text \<open>
  One step of \<open>OrdinaryToPrimitive\<close>: a method that is absent or not callable is
  skipped; a callable one is called; a result that is not an object decides; a
  throw propagates; otherwise \<open>next\<close> goes on in the heap the call left.
\<close>

definition primitiveFrom ::
  "code \<Rightarrow> slot \<Rightarrow> heap \<Rightarrow> (heap \<Rightarrow> (jsval completion \<times> heap) option)
     \<Rightarrow> (jsval completion \<times> heap) option" where
  "primitiveFrom c m h next =
     (case m of
        Absent \<Rightarrow> next h
      | NotCallable \<Rightarrow> next h
      | Builtin r \<Rightarrow> if isObject r then next h else Some (Normal r, h)
      | UserCode f \<Rightarrow>
          (case c f h of
             None \<Rightarrow> None
           | Some (Throw t, h1) \<Rightarrow> Some (Throw t, h1)
           | Some (Normal r, h1) \<Rightarrow> if isObject r then next h1 else Some (Normal r, h1)))"

text \<open>
  \<open>OrdinaryToPrimitive(O, string)\<close>: \<open>toString\<close>, then \<open>valueOf\<close>; if neither
  gives a primitive a \<open>TypeError\<close> is thrown.
\<close>

definition ordinaryToPrimitive :: "code \<Rightarrow> addr \<Rightarrow> heap \<Rightarrow> (jsval completion \<times> heap) option" where
  "ordinaryToPrimitive c a h =
     primitiveFrom c (slotOf toStringM h a) h
       (\<lambda>h1. primitiveFrom c (slotOf valueOfM h1 a) h1
          (\<lambda>h2. Some (throwTypeError ''Cannot convert object to primitive value'' h2)))"

text \<open>
  \<open>ToPrimitive(input, string)\<close>: a primitive is returned as it is. For an object,
  \<open>GetMethod\<close> looks up \<open>[Symbol.toPrimitive]\<close>: absent, the object goes through
  \<open>OrdinaryToPrimitive\<close>; present but not callable, a \<open>TypeError\<close>; callable, it is
  called, and a \<open>TypeError\<close> is thrown if it returns an object.
\<close>

definition toPrimitive :: "code \<Rightarrow> jsval \<Rightarrow> heap \<Rightarrow> (jsval completion \<times> heap) option" where
  "toPrimitive c input h =
     (case input of
        VObj a \<Rightarrow>
          (case slotOf toPrimitiveM h a of
             Absent \<Rightarrow> ordinaryToPrimitive c a h
           | NotCallable \<Rightarrow> Some (throwTypeError ''Symbol.toPrimitive is not a function'' h)
           | Builtin r \<Rightarrow>
               if isObject r
               then Some (throwTypeError ''Cannot convert object to primitive value'' h)
               else Some (Normal r, h)
           | UserCode f \<Rightarrow>
               (case c f h of
                  None \<Rightarrow> None
                | Some (Throw t, h1) \<Rightarrow> Some (Throw t, h1)
                | Some (Normal r, h1) \<Rightarrow>
                    if isObject r
                    then Some (throwTypeError ''Cannot convert object to primitive value'' h1)
                    else Some (Normal r, h1)))
      | _ \<Rightarrow> Some (Normal input, h))"

text \<open>\<open>ToString\<close> on a primitive; a Symbol cannot be converted implicitly.\<close>

fun toStringPrim :: "jsval \<Rightarrow> heap \<Rightarrow> string completion \<times> heap" where
  "toStringPrim VUndefined h = (Normal ''undefined'', h)"
| "toStringPrim VNull h = (Normal ''null'', h)"
| "toStringPrim (VBool b) h = (Normal (if b then ''true'' else ''false''), h)"
| "toStringPrim (VNum x) h = (Normal (numberToString x), h)"
| "toStringPrim (VBigInt n) h = (Normal (intToDecimal n), h)"
| "toStringPrim (VStr s) h = (Normal s, h)"
| "toStringPrim (VSym d) h = throwTypeError ''Cannot convert a Symbol value to a string'' h"
| "toStringPrim (VObj a) h = throwTypeError ''Cannot convert object to primitive value'' h"

definition toString :: "code \<Rightarrow> jsval \<Rightarrow> heap \<Rightarrow> (string completion \<times> heap) option" where
  "toString c v h =
     (case toPrimitive c v h of
        None \<Rightarrow> None
      | Some (Throw t, h1) \<Rightarrow> Some (Throw t, h1)
      | Some (Normal p, h1) \<Rightarrow> Some (toStringPrim p h1))"

text \<open>
  \<open>String(value)\<close> called as a function: a Symbol gives its descriptive string
  \<open>Symbol(description)\<close>; everything else goes through \<open>ToString\<close>.
\<close>

definition String :: "code \<Rightarrow> jsval \<Rightarrow> heap \<Rightarrow> (string completion \<times> heap) option" where
  "String c v h =
     (case v of
        VSym d \<Rightarrow> Some (Normal (''Symbol('' @ (case d of None \<Rightarrow> [] | Some s \<Rightarrow> s) @ '')''), h)
      | _ \<Rightarrow> toString c v h)"

subsection \<open>Reading decimal text\<close>









section \<open>The result tuple and the wrapped operations\<close>

text \<open>
  \<open>DoResult<T> = [Error | null, T | undefined]\<close>: the pair of the error slot and the
  data slot. The type parameter \<open>T\<close> is erased at run time, so the data slot holds
  any value.
\<close>

type_synonym DoResult = "jsval \<times> jsval"

text \<open>
  An optional parameter that the caller leaves out is bound to \<open>undefined\<close>.
\<close>

definition optionalArg :: "jsval option \<Rightarrow> jsval" where
  "optionalArg d = (case d of None \<Rightarrow> VUndefined | Some v \<Rightarrow> v)"

text \<open>
  A promise is described by how it settles: fulfilled with a value, rejected with a
  reason, or never (\<open>Pending\<close>). Awaiting it suspends the caller and other code runs
  meanwhile, so a settlement carries the heap of the moment the caller resumes, and
  a promise is a function from the heap at the \<open>await\<close> to its settlement.
\<close>

datatype 'a settlement = Fulfilled 'a heap | Rejected jsval heap | Pending

type_synonym 'a promise = "heap \<Rightarrow> 'a settlement"

text \<open>
  \<open>fn: () => T\<close> is user code: it returns or throws and leaves a heap, or never
  returns (\<open>None\<close>). \<open>AsyncFunction<T> = (...args) => Promise<T>\<close> returns a
  promise, or throws before it has one, or never returns.
\<close>

type_synonym syncFunction = "heap \<Rightarrow> (jsval completion \<times> heap) option"

type_synonym AsyncFunction = "heap \<Rightarrow> ((jsval promise) completion \<times> heap) option"

text \<open>
  \<open>await p\<close>: the value of a fulfilled promise, a throw of the reason of a rejected
  one; \<open>None\<close> when the promise never settles and the function never resumes.
\<close>

definition await :: "'a promise \<Rightarrow> heap \<Rightarrow> ('a completion \<times> heap) option" where
  "await p h =
     (case p h of
        Fulfilled v h1 \<Rightarrow> Some (Normal v, h1)
      | Rejected s h1 \<Rightarrow> Some (Throw s, h1)
      | Pending \<Rightarrow> None)"

section \<open>The wrappers\<close>

text \<open>
  The expression that all three \<open>catch\<close> blocks evaluate:
  \<^verbatim>\<open>error instanceof Error ? error : new Error(String(error))\<close>
  The test \<open>instanceof\<close> comes first and can throw; \<open>String(error)\<close> is evaluated
  before the constructor runs and can throw or never return; nothing in the
  \<open>catch\<close> block catches either.
\<close>

definition errorInstance :: "code \<Rightarrow> jsval \<Rightarrow> heap \<Rightarrow> (jsval completion \<times> heap) option" where
  "errorInstance c error h =
     (case instanceofError error h of
        Throw t \<Rightarrow> Some (Throw t, h)
      | Normal True \<Rightarrow> Some (Normal error, h)
      | Normal False \<Rightarrow>
          (case String c error h of
             None \<Rightarrow> None
           | Some (Throw t, h1) \<Rightarrow> Some (Throw t, h1)
           | Some (Normal msg, h1) \<Rightarrow> (case newError msg h1 of (e, h2) \<Rightarrow> Some (Normal e, h2))))"

text \<open>
  \<^verbatim>\<open>
  export function toSync<T>(fn: () => T, defaultValue?: T): DoResult<T> {
    try {
      const result = fn();
      return [null, result];
    } catch (error) {
      const errorInstance =
        error instanceof Error ? error : new Error(String(error));
      return [errorInstance, defaultValue];
    }
  }\<close>
  \<open>None\<close>: the call of \<open>toSync\<close> never returns.
\<close>

definition toSync ::
  "code \<Rightarrow> syncFunction \<Rightarrow> jsval option \<Rightarrow> heap \<Rightarrow> (DoResult completion \<times> heap) option" where
  "toSync c fn defaultValue h =
     (case fn h of
        None \<Rightarrow> None
      | Some (Normal result, h1) \<Rightarrow> Some (Normal (VNull, result), h1)
      | Some (Throw error, h1) \<Rightarrow>
          (case errorInstance c error h1 of
             None \<Rightarrow> None
           | Some (Throw t, h2) \<Rightarrow> Some (Throw t, h2)
           | Some (Normal e, h2) \<Rightarrow> Some (Normal (e, optionalArg defaultValue), h2)))"

text \<open>
  The \<open>catch\<close> block of the two \<open>async\<close> wrappers. An \<open>async\<close> function never
  throws to its caller: the promise it returns is fulfilled with what the body
  returns and rejected with what the body throws; it stays pending when the body
  never finishes.
\<close>

definition catchAsync :: "code \<Rightarrow> jsval \<Rightarrow> jsval option \<Rightarrow> DoResult promise" where
  "catchAsync c error defaultValue h =
     (case errorInstance c error h of
        None \<Rightarrow> Pending
      | Some (Throw t, h1) \<Rightarrow> Rejected t h1
      | Some (Normal e, h1) \<Rightarrow> Fulfilled (e, optionalArg defaultValue) h1)"

text \<open>
  \<^verbatim>\<open>
  export async function toPromise<T>(promise: Promise<T>, defaultValue?: T)
      : Promise<DoResult<T>> {
    try {
      const result = await promise;
      return [null, result];
    } catch (error) {
      const errorInstance =
        error instanceof Error ? error : new Error(String(error));
      return [errorInstance, defaultValue];
    }
  }\<close>
\<close>

definition toPromise :: "code \<Rightarrow> jsval promise \<Rightarrow> jsval option \<Rightarrow> DoResult promise" where
  "toPromise c promise defaultValue h =
     (case await promise h of
        None \<Rightarrow> Pending
      | Some (Normal result, h1) \<Rightarrow> Fulfilled (VNull, result) h1
      | Some (Throw error, h1) \<Rightarrow> catchAsync c error defaultValue h1)"

text \<open>
  \<^verbatim>\<open>
  export async function to<T>(asyncFn: AsyncFunction<T>, defaultValue?: T)
      : Promise<DoResult<T>> {
    try {
      const result = await asyncFn();
      return [null, result];
    } catch (error) {
      const errorInstance =
        error instanceof Error ? error : new Error(String(error));
      return [errorInstance, defaultValue];
    }
  }\<close>
  The call \<open>asyncFn()\<close> and the \<open>await\<close> are both inside the \<open>try\<close>:
  \<open>awaitCall\<close> is the expression \<open>await asyncFn()\<close>, which throws what the call
  throws or what the promise is rejected with, and the one \<open>catch\<close> block receives
  either. A call \<open>asyncFn()\<close> that never returns leaves the caller without a result,
  as a promise that stays pending does.
\<close>

definition awaitCall :: "AsyncFunction \<Rightarrow> heap \<Rightarrow> (jsval completion \<times> heap) option" where
  "awaitCall asyncFn h =
     (case asyncFn h of
        None \<Rightarrow> None
      | Some (Throw error, h1) \<Rightarrow> Some (Throw error, h1)
      | Some (Normal p, h1) \<Rightarrow> await p h1)"

definition to :: "code \<Rightarrow> AsyncFunction \<Rightarrow> jsval option \<Rightarrow> DoResult promise" where
  "to c asyncFn defaultValue h =
     (case awaitCall asyncFn h of
        None \<Rightarrow> Pending
      | Some (Normal result, h1) \<Rightarrow> Fulfilled (VNull, result) h1
      | Some (Throw error, h1) \<Rightarrow> catchAsync c error defaultValue h1)"

section \<open>Objects and programs used as inputs\<close>

text \<open>
  \<open>Object.create(null)\<close>: no prototype, so neither \<open>toString\<close> nor \<open>valueOf\<close>.
\<close>

definition bareObject :: obj where
  "bareObject =
     \<lparr> protoWalk = Normal False, props = [], toPrimitiveM = Absent, toStringM = Absent,
       valueOfM = Absent \<rparr>"

text \<open>
  \<open>const o = {}; o.self = o\<close> at address \<open>a\<close>: a cyclic plain object, with the
  methods of \<open>Object.prototype\<close>.
\<close>

definition cyclicObject :: "addr \<Rightarrow> obj" where
  "cyclicObject a =
     \<lparr> protoWalk = Normal False, props = [(''self'', VObj a)], toPrimitiveM = Absent,
       toStringM = Builtin (VStr ''[object Object]''),
       valueOfM = Builtin (VObj a) \<rparr>"


text \<open>
  \<open>{ toString() { throw 'no string form' } }\<close> at address \<open>a\<close>: a plain object
  whose own \<open>toString\<close> is the user code 0, and the program in which that code
  throws a string.
\<close>

definition throwingObject :: "addr \<Rightarrow> obj" where
  "throwingObject a =
     \<lparr> protoWalk = Normal False, props = [], toPrimitiveM = Absent,
       toStringM = UserCode 0,
       valueOfM = Builtin (VObj a) \<rparr>"

definition throwingCode :: code where
  "throwingCode f h = Some (Throw (VStr ''no string form''), h)"

text \<open>
  \<open>new Proxy({}, { getPrototypeOf() { throw 'trap' } })\<close> at address \<open>a\<close>:
  \<open>String\<close> of it is \<open>[object Object]\<close>, but \<open>instanceof\<close> runs the trap.
\<close>

definition trappedProxy :: "addr \<Rightarrow> obj" where
  "trappedProxy a =
     \<lparr> protoWalk = Throw (VStr ''trap''), props = [], toPrimitiveM = Absent,
       toStringM = Builtin (VStr ''[object Object]''),
       valueOfM = Builtin (VObj a) \<rparr>"

text \<open>A program without user code: no call of it returns.\<close>

definition noCode :: code where
  "noCode f h = None"

section \<open>Facts about numbers and their decimal text\<close>


























section \<open>Facts about the primitives\<close>




lemma String_VStr: "String c (VStr t) h = Some (Normal t, h)"
  by (simp add: String_def toString_def toPrimitive_def)



lemma instanceofError_primitive: "\<not> isObject v \<Longrightarrow> instanceofError v h = Normal False"
  by (cases v) (simp_all add: instanceofError_def)

section \<open>Facts about the \<open>catch\<close> block\<close>


lemma errorInstance_new:
  "instanceofError s h = Normal False \<Longrightarrow> String c s h = Some (Normal t, h') \<Longrightarrow>
   errorInstance c s h = Some (Normal (VObj (length h')), h' @ [errorObject ''Error'' t (length h')])"
  by (simp add: errorInstance_def newError_def)

lemma errorInstance_String_throws:
  "instanceofError s h = Normal False \<Longrightarrow> String c s h = Some (Throw t, h') \<Longrightarrow>
   errorInstance c s h = Some (Throw t, h')"
  by (simp add: errorInstance_def)

lemma errorInstance_instanceof_throws:
  "instanceofError s h = Throw t \<Longrightarrow> errorInstance c s h = Some (Throw t, h)"
  by (simp add: errorInstance_def)


text \<open>
  When the normalization of the thrown value returns \<open>f\<close>, the wrappers return
  \<open>[f, fallback]\<close>.
\<close>

lemma toSync_failure:
  "fn h = Some (Throw s, h') \<Longrightarrow> errorInstance c s h' = Some (Normal f, h'') \<Longrightarrow>
   toSync c fn d h = Some (Normal (f, optionalArg d), h'')"
  by (simp add: toSync_def)

lemma toPromise_failure:
  "promise h = Rejected s h' \<Longrightarrow> errorInstance c s h' = Some (Normal f, h'') \<Longrightarrow>
   toPromise c promise d h = Fulfilled (f, optionalArg d) h''"
  by (simp add: toPromise_def await_def catchAsync_def)

lemma to_throw_caught:
  "asyncFn h = Some (Throw s, h') \<Longrightarrow> to c asyncFn d h = catchAsync c s d h'"
  by (simp add: to_def awaitCall_def)

lemma to_rejection_caught:
  "asyncFn h = Some (Normal p, hp) \<Longrightarrow> p hp = Rejected s h' \<Longrightarrow>
   to c asyncFn d h = catchAsync c s d h'"
  by (simp add: to_def awaitCall_def await_def)

section \<open>Thrown values without a string form\<close>

lemma String_bareObject:
  "String c (VObj 0) [bareObject]
     = Some (Throw (VObj 1),
        [bareObject, errorObject ''TypeError'' ''Cannot convert object to primitive value'' 1])"
  by (simp add: String_def toString_def toPrimitive_def ordinaryToPrimitive_def primitiveFrom_def
      slotOf_def throwTypeError_def lookup_def bareObject_def)

lemma String_throwingObject:
  "String throwingCode (VObj 0) [throwingObject 0]
     = Some (Throw (VStr ''no string form''), [throwingObject 0])"
  by (simp add: String_def toString_def toPrimitive_def ordinaryToPrimitive_def primitiveFrom_def
      slotOf_def lookup_def throwingObject_def throwingCode_def)

lemma not_Error_bareObject: "instanceofError (VObj 0) [bareObject] = Normal False"
  by (simp add: instanceofError_def lookup_def bareObject_def)

lemma not_Error_throwingObject: "instanceofError (VObj 0) [throwingObject 0] = Normal False"
  by (simp add: instanceofError_def lookup_def throwingObject_def)

lemma instanceof_trappedProxy: "instanceofError (VObj 0) [trappedProxy 0] = Throw (VStr ''trap'')"
  by (simp add: instanceofError_def lookup_def trappedProxy_def)

lemma errorInstance_bareObject:
  "errorInstance c (VObj 0) [bareObject]
     = Some (Throw (VObj 1),
        [bareObject, errorObject ''TypeError'' ''Cannot convert object to primitive value'' 1])"
  using not_Error_bareObject String_bareObject by (rule errorInstance_String_throws)

lemma errorInstance_throwingObject:
  "errorInstance throwingCode (VObj 0) [throwingObject 0]
     = Some (Throw (VStr ''no string form''), [throwingObject 0])"
  using not_Error_throwingObject String_throwingObject by (rule errorInstance_String_throws)

lemma errorInstance_trappedProxy:
  "errorInstance c (VObj 0) [trappedProxy 0] = Some (Throw (VStr ''trap''), [trappedProxy 0])"
  using instanceof_trappedProxy by (rule errorInstance_instanceof_throws)

text \<open>
  An object whose \<open>[Symbol.toPrimitive]\<close> is present but cannot be called, such as
  \<open>{ [Symbol.toPrimitive]: 1 }\<close>, has no string form either.
\<close>

lemma String_notCallable:
  "slotOf toPrimitiveM h a = NotCallable \<Longrightarrow> \<exists>t h'. String c (VObj a) h = Some (Throw t, h')"
  by (simp add: String_def toString_def toPrimitive_def throwTypeError_def)

lemma catchAsync_bareObject:
  "catchAsync c (VObj 0) d [bareObject]
     = Rejected (VObj 1)
         [bareObject, errorObject ''TypeError'' ''Cannot convert object to primitive value'' 1]"
  by (simp add: catchAsync_def errorInstance_bareObject)

section \<open>Success\<close>

text \<open>
  C2. When the wrapped operation returns normally, or its promise is fulfilled, with
  a value \<open>v\<close>, each of the three wrappers returns \<open>[null, v]\<close>: the error slot is
  \<open>null\<close>, the data slot is \<open>v\<close> itself (for an object, the same reference), and
  the heap is the one the operation left: the wrapper has copied and changed
  nothing, and has run no other code.
\<close>

theorem success_tuple:
  "(fn h = Some (Normal v, h') \<longrightarrow> toSync c fn d h = Some (Normal (VNull, v), h')) \<and>
   (promise h = Fulfilled v h' \<longrightarrow> toPromise c promise d h = Fulfilled (VNull, v) h') \<and>
   (asyncFn h = Some (Normal p, hp) \<and> p hp = Fulfilled v h' \<longrightarrow>
      to c asyncFn d h = Fulfilled (VNull, v) h')"
  by (simp add: toSync_def toPromise_def to_def awaitCall_def await_def)

text \<open>
  An operation that builds a cyclic object and returns it; a promise already
  fulfilled with the string \<open>success\<close>; a factory whose promise is fulfilled with
  the object at address 0.
\<close>

theorem success_tuple_witness:
  "toSync noCode (\<lambda>h. Some (Normal (VObj (length h)), h @ [cyclicObject (length h)])) None []
     = Some (Normal (VNull, VObj 0), [cyclicObject 0]) \<and>
   toPromise noCode (\<lambda>h. Fulfilled (VStr ''success'') h) None []
     = Fulfilled (VNull, VStr ''success'') [] \<and>
   to noCode (\<lambda>h. Some (Normal (\<lambda>h'. Fulfilled (VObj 0) h'), h)) (Some VNull) [cyclicObject 0]
     = Fulfilled (VNull, VObj 0) [cyclicObject 0]"
proof -
  have a: "toSync noCode (\<lambda>h. Some (Normal (VObj (length h)), h @ [cyclicObject (length h)])) None []
     = Some (Normal (VNull, VObj 0), [cyclicObject 0])"
    using success_tuple [where fn = "\<lambda>h. Some (Normal (VObj (length h)), h @ [cyclicObject (length h)])"
        and h = "[]" and v = "VObj 0" and h' = "[cyclicObject 0]" and d = None and c = noCode]
    by simp
  have b: "toPromise noCode (\<lambda>h. Fulfilled (VStr ''success'') h) None []
     = Fulfilled (VNull, VStr ''success'') []"
    using success_tuple [where promise = "\<lambda>h. Fulfilled (VStr ''success'') h"
        and h = "[]" and v = "VStr ''success''" and h' = "[]" and d = None and c = noCode]
    by simp
  have c: "to noCode (\<lambda>h. Some (Normal (\<lambda>h'. Fulfilled (VObj 0) h'), h)) (Some VNull) [cyclicObject 0]
     = Fulfilled (VNull, VObj 0) [cyclicObject 0]"
    using success_tuple [where asyncFn = "\<lambda>h. Some (Normal (\<lambda>h'. Fulfilled (VObj 0) h'), h)"
        and h = "[cyclicObject 0]" and p = "\<lambda>h'. Fulfilled (VObj 0) h'" and hp = "[cyclicObject 0]"
        and v = "VObj 0" and h' = "[cyclicObject 0]" and d = "Some VNull" and c = noCode]
    by simp
  from a b c show ?thesis by simp
qed

text \<open>
  C9. Whether a call succeeded is decided by how the operation completed, not by
  what it produced. If the operation succeeds with \<open>undefined\<close> or with an object
  that is an \<open>Error\<close> instance, every wrapper still returns \<open>null\<close> in the error
  slot and that very value in the data slot, whatever fallback was passed; no error
  object is made (the heap is the one the operation left).
\<close>

theorem success_decided_by_completion:
  assumes "v = VUndefined \<or> instanceofError v h' = Normal True"
  shows "(fn h = Some (Normal v, h') \<longrightarrow>
            toSync c fn None h = Some (Normal (VNull, v), h') \<and>
            toSync c fn (Some fallback) h = Some (Normal (VNull, v), h')) \<and>
         (promise h = Fulfilled v h' \<longrightarrow>
            toPromise c promise None h = Fulfilled (VNull, v) h' \<and>
            toPromise c promise (Some fallback) h = Fulfilled (VNull, v) h') \<and>
         (asyncFn h = Some (Normal p, hp) \<and> p hp = Fulfilled v h' \<longrightarrow>
            to c asyncFn None h = Fulfilled (VNull, v) h' \<and>
            to c asyncFn (Some fallback) h = Fulfilled (VNull, v) h')"
  by (simp add: toSync_def toPromise_def to_def awaitCall_def await_def)

text \<open>
  An operation that returns the \<open>Error\<close> object at address 0 instead of throwing
  it; a promise fulfilled with \<open>undefined\<close>; a factory whose promise is fulfilled
  with the same \<open>Error\<close> object. A fallback is passed each time.
\<close>

theorem success_decided_by_completion_witness:
  "instanceofError (VObj 0) [errorObject ''Error'' ''returned'' 0] = Normal True \<and>
   toSync noCode (\<lambda>h. Some (Normal (VObj 0), h)) (Some (VStr ''default''))
      [errorObject ''Error'' ''returned'' 0]
     = Some (Normal (VNull, VObj 0), [errorObject ''Error'' ''returned'' 0]) \<and>
   toPromise noCode (\<lambda>h. Fulfilled VUndefined h) (Some (VStr ''default'')) []
     = Fulfilled (VNull, VUndefined) [] \<and>
   to noCode (\<lambda>h. Some (Normal (\<lambda>h'. Fulfilled (VObj 0) h'), h)) (Some (VStr ''default''))
      [errorObject ''Error'' ''returned'' 0]
     = Fulfilled (VNull, VObj 0) [errorObject ''Error'' ''returned'' 0]"
proof -
  let ?h = "[errorObject ''Error'' ''returned'' 0]"
  have e: "instanceofError (VObj 0) ?h = Normal True"
    by (simp add: instanceofError_def lookup_def errorObject_def)
  then have e': "VObj 0 = VUndefined \<or> instanceofError (VObj 0) ?h = Normal True" by simp
  have u: "VUndefined = VUndefined \<or> instanceofError VUndefined [] = Normal True" by simp
  have a: "toSync noCode (\<lambda>h. Some (Normal (VObj 0), h)) (Some (VStr ''default'')) ?h
     = Some (Normal (VNull, VObj 0), ?h)"
    using success_decided_by_completion [OF e', where fn = "\<lambda>h. Some (Normal (VObj 0), h)" and h = ?h
        and fallback = "VStr ''default''" and c = noCode]
    by simp
  have b: "toPromise noCode (\<lambda>h. Fulfilled VUndefined h) (Some (VStr ''default'')) []
     = Fulfilled (VNull, VUndefined) []"
    using success_decided_by_completion [OF u, where promise = "\<lambda>h. Fulfilled VUndefined h" and h = "[]"
        and fallback = "VStr ''default''" and c = noCode]
    by simp
  have c: "to noCode (\<lambda>h. Some (Normal (\<lambda>h'. Fulfilled (VObj 0) h'), h)) (Some (VStr ''default'')) ?h
     = Fulfilled (VNull, VObj 0) ?h"
    using success_decided_by_completion [OF e',
        where asyncFn = "\<lambda>h. Some (Normal (\<lambda>h'. Fulfilled (VObj 0) h'), h)"
        and h = ?h and p = "\<lambda>h'. Fulfilled (VObj 0) h'" and hp = ?h
        and fallback = "VStr ''default''" and c = noCode]
    by simp
  from e a b c show ?thesis by simp
qed

section \<open>Failure\<close>

text \<open>
  C1 says that for every signal \<open>s\<close> the wrappers return the tuple of the normalized
  \<open>s\<close> and the fallback. They do when the normalization returns (\<open>toSync_failure\<close>,
  \<open>toPromise_failure\<close>, \<open>to_throw_caught\<close>), but for a signal without a string form
  no tuple is returned, with or without a fallback: \<open>toSync\<close> throws the
  \<open>TypeError\<close> of \<open>String(error)\<close> when the operation throws
  \<open>Object.create(null)\<close>, and the promise of \<open>toPromise\<close> is rejected with it;
  the promise of \<open>to\<close> is rejected with the string thrown by the \<open>toString\<close> of the
  object its promise was rejected with.
\<close>

theorem failure_without_tuple:
  "toSync noCode (\<lambda>h. Some (Throw (VObj 0), h)) None [bareObject]
     = Some (Throw (VObj 1),
        [bareObject, errorObject ''TypeError'' ''Cannot convert object to primitive value'' 1]) \<and>
   toPromise noCode (\<lambda>h. Rejected (VObj 0) h) None [bareObject]
     = Rejected (VObj 1)
         [bareObject, errorObject ''TypeError'' ''Cannot convert object to primitive value'' 1] \<and>
   to throwingCode (\<lambda>h. Some (Normal (\<lambda>h'. Rejected (VObj 0) h'), h)) None [throwingObject 0]
     = Rejected (VStr ''no string form'') [throwingObject 0] \<and>
   to throwingCode (\<lambda>h. Some (Normal (\<lambda>h'. Rejected (VObj 0) h'), h)) (Some VNull) [throwingObject 0]
     = Rejected (VStr ''no string form'') [throwingObject 0]"
  by (simp add: toSync_def toPromise_def to_def awaitCall_def await_def catchAsync_def
      errorInstance_bareObject errorInstance_throwingObject)

text \<open>
  C10 says that on every failure with a fallback \<open>d\<close> the wrappers return a tuple
  whose data slot is \<open>d\<close>. With the fallback the cyclic object at address 1 and
  the signal \<open>Object.create(null)\<close> at address 0, no wrapper returns a tuple:
  \<open>toSync\<close> throws the \<open>TypeError\<close> of \<open>String(error)\<close> and the promises of
  \<open>toPromise\<close> and \<open>to\<close> are rejected with it; the fallback reaches the caller
  in no way.
\<close>

theorem fallback_without_tuple:
  "toSync noCode (\<lambda>h. Some (Throw (VObj 0), h)) (Some (VObj 1)) [bareObject, cyclicObject 1]
     = Some (Throw (VObj 2),
        [bareObject, cyclicObject 1,
         errorObject ''TypeError'' ''Cannot convert object to primitive value'' 2]) \<and>
   toPromise noCode (\<lambda>h. Rejected (VObj 0) h) (Some (VObj 1)) [bareObject, cyclicObject 1]
     = Rejected (VObj 2)
        [bareObject, cyclicObject 1,
         errorObject ''TypeError'' ''Cannot convert object to primitive value'' 2] \<and>
   to noCode (\<lambda>h. Some (Throw (VObj 0), h)) (Some (VObj 1)) [bareObject, cyclicObject 1]
     = Rejected (VObj 2)
        [bareObject, cyclicObject 1,
         errorObject ''TypeError'' ''Cannot convert object to primitive value'' 2]"
proof -
  have i: "instanceofError (VObj 0) [bareObject, cyclicObject 1] = Normal False"
    by (simp add: instanceofError_def lookup_def bareObject_def)
  have s: "String noCode (VObj 0) [bareObject, cyclicObject 1]
     = Some (Throw (VObj 2),
        [bareObject, cyclicObject 1,
         errorObject ''TypeError'' ''Cannot convert object to primitive value'' 2])"
    by (simp add: String_def toString_def toPrimitive_def ordinaryToPrimitive_def primitiveFrom_def
        slotOf_def throwTypeError_def lookup_def bareObject_def numeral_2_eq_2)
  have e: "errorInstance noCode (VObj 0) [bareObject, cyclicObject 1]
     = Some (Throw (VObj 2),
        [bareObject, cyclicObject 1,
         errorObject ''TypeError'' ''Cannot convert object to primitive value'' 2])"
    using i s by (rule errorInstance_String_throws)
  show ?thesis
    using e by (simp add: toSync_def toPromise_def to_def awaitCall_def await_def catchAsync_def)
qed

section \<open>Normalization of the thrown value\<close>





section \<open>The two asynchronous wrappers agree\<close>

text \<open>
  C8. If a factory returns a promise that settles as a given promise does (the
  same outcome, in the same heap), then \<open>to\<close> on the factory and \<open>toPromise\<close> on
  the promise give the same result, for every fallback; in particular
  \<open>to(() => p, d)\<close> and \<open>toPromise(p, d)\<close> agree. A factory that throws \<open>s\<close>
  before it has a promise gives the result of a promise rejected with \<open>s\<close>.
\<close>

theorem to_toPromise_agree:
  "(asyncFn h = Some (Normal q, hq) \<and> q hq = promise hp \<longrightarrow>
      to c asyncFn d h = toPromise c promise d hp) \<and>
   to c (\<lambda>h. Some (Normal promise, h)) d h = toPromise c promise d h \<and>
   (asyncFn h = Some (Throw s, h') \<and> promise hp = Rejected s h' \<longrightarrow>
      to c asyncFn d h = toPromise c promise d hp)"
  by (simp add: to_def toPromise_def awaitCall_def await_def)

text \<open>
  A promise rejected with the string \<open>string error\<close>, and a factory that returns
  it: both wrappers give the same failure and the same fallback.
\<close>

theorem to_toPromise_agree_witness:
  "to noCode (\<lambda>h. Some (Normal (\<lambda>h'. Rejected (VStr ''string error'') h'), h))
      (Some (VStr ''fallback'')) []
     = toPromise noCode (\<lambda>h'. Rejected (VStr ''string error'') h') (Some (VStr ''fallback'')) [] \<and>
   toPromise noCode (\<lambda>h'. Rejected (VStr ''string error'') h') (Some (VStr ''fallback'')) []
     = Fulfilled (VObj 0, VStr ''fallback'') [errorObject ''Error'' ''string error'' 0]"
proof -
  have a: "to noCode (\<lambda>h. Some (Normal (\<lambda>h'. Rejected (VStr ''string error'') h'), h))
      (Some (VStr ''fallback'')) []
     = toPromise noCode (\<lambda>h'. Rejected (VStr ''string error'') h') (Some (VStr ''fallback'')) []"
    using to_toPromise_agree
      [where asyncFn = "\<lambda>h. Some (Normal (\<lambda>h'. Rejected (VStr ''string error'') h'), h)"
        and h = "[]" and q = "\<lambda>h'. Rejected (VStr ''string error'') h'" and hq = "[]"
        and promise = "\<lambda>h'. Rejected (VStr ''string error'') h'" and hp = "[]"
        and d = "Some (VStr ''fallback'')" and c = noCode]
    by simp
  have n: "errorInstance noCode (VStr ''string error'') []
     = Some (Normal (VObj 0), [errorObject ''Error'' ''string error'' 0])"
    using errorInstance_new [of "VStr ''string error''" "[]" noCode, OF _ String_VStr]
    by (simp add: instanceofError_def)
  have b: "toPromise noCode (\<lambda>h'. Rejected (VStr ''string error'') h') (Some (VStr ''fallback'')) []
     = Fulfilled (VObj 0, VStr ''fallback'') [errorObject ''Error'' ''string error'' 0]"
    using toPromise_failure [where promise = "\<lambda>h'. Rejected (VStr ''string error'') h'"
        and h = "[]", OF _ n]
    by (simp add: optionalArg_def)
  from a b show ?thesis by simp
qed

section \<open>What crosses out of the \<open>catch\<close> block\<close>

text \<open>
  C3 says that the normalization never throws and that a value without a string
  form gets a fixed placeholder message. The \<open>catch\<close> block has no guard and no
  placeholder, though its comment reads "Ensure we always return an Error
  instance": for \<open>Object.create(null)\<close> the normalization throws the \<open>TypeError\<close>
  of \<open>String(error)\<close>; for an object whose \<open>toString\<close> throws it throws what
  \<open>toString\<close> threw; and for a \<open>Proxy\<close> whose \<open>getPrototypeOf\<close> trap throws,
  \<open>instanceof\<close> throws before \<open>String\<close> is reached.
\<close>

theorem errorInstance_throws:
  "errorInstance noCode (VObj 0) [bareObject]
     = Some (Throw (VObj 1),
        [bareObject, errorObject ''TypeError'' ''Cannot convert object to primitive value'' 1]) \<and>
   errorInstance throwingCode (VObj 0) [throwingObject 0]
     = Some (Throw (VStr ''no string form''), [throwingObject 0]) \<and>
   errorInstance noCode (VObj 0) [trappedProxy 0] = Some (Throw (VStr ''trap''), [trappedProxy 0])"
  using errorInstance_bareObject [of noCode] errorInstance_throwingObject
    errorInstance_trappedProxy [of noCode]
  by simp

text \<open>
  C4. The two sources of failure of \<open>to\<close> are indeed handled by the one \<open>catch\<close>
  block (\<open>to_throw_caught\<close>, \<open>to_rejection_caught\<close>), but that block can throw:
  when the factory throws \<open>Object.create(null)\<close>, or returns a promise rejected
  with it, the promise that \<open>to\<close> returns is rejected with the \<open>TypeError\<close> of
  \<open>String(error)\<close>, and there is no result tuple.
\<close>

theorem to_rejects_without_string_form:
  "to noCode (\<lambda>h. Some (Throw (VObj 0), h)) None [bareObject]
     = Rejected (VObj 1)
         [bareObject, errorObject ''TypeError'' ''Cannot convert object to primitive value'' 1] \<and>
   to noCode (\<lambda>h. Some (Normal (\<lambda>h'. Rejected (VObj 0) h'), h)) None [bareObject]
     = Rejected (VObj 1)
         [bareObject, errorObject ''TypeError'' ''Cannot convert object to primitive value'' 1]"
proof -
  have a: "to noCode (\<lambda>h. Some (Throw (VObj 0), h)) None [bareObject]
     = catchAsync noCode (VObj 0) None [bareObject]"
    by (rule to_throw_caught) simp
  have b: "to noCode (\<lambda>h. Some (Normal (\<lambda>h'. Rejected (VObj 0) h'), h)) None [bareObject]
     = catchAsync noCode (VObj 0) None [bareObject]"
    by (rule to_rejection_caught [where p = "\<lambda>h'. Rejected (VObj 0) h'" and hp = "[bareObject]"])
      simp_all
  from a b show ?thesis by (simp add: catchAsync_bareObject)
qed

text \<open>
  C5. A throw does cross out of each wrapper. With a fallback passed: \<open>toSync\<close>
  throws the \<open>TypeError\<close> when the operation throws \<open>Object.create(null)\<close>;
  the promise of \<open>toPromise\<close> is rejected with it when the wrapped promise is
  rejected with that object; the promise of \<open>to\<close> is rejected with the string that
  the \<open>toString\<close> of the thrown object throws.
\<close>

theorem wrappers_propagate_without_string_form:
  "toSync noCode (\<lambda>h. Some (Throw (VObj 0), h)) (Some (VStr ''default'')) [bareObject]
     = Some (Throw (VObj 1),
        [bareObject, errorObject ''TypeError'' ''Cannot convert object to primitive value'' 1]) \<and>
   toPromise noCode (\<lambda>h. Rejected (VObj 0) h) (Some (VStr ''default'')) [bareObject]
     = Rejected (VObj 1)
         [bareObject, errorObject ''TypeError'' ''Cannot convert object to primitive value'' 1] \<and>
   to throwingCode (\<lambda>h. Some (Throw (VObj 0), h)) (Some (VStr ''default'')) [throwingObject 0]
     = Rejected (VStr ''no string form'') [throwingObject 0]"
  by (simp add: toSync_def toPromise_def to_def awaitCall_def await_def catchAsync_def
      errorInstance_bareObject errorInstance_throwingObject)

end
